theory Spec2Isabelle
  imports Main
begin

section \<open>Platform values\<close>

text \<open>
  The service is a Node program: every asynchronous function returns a promise.
  A promise either resolves with a value or rejects with an error object. An exception
  thrown inside an event-emitter callback is outside every promise: the promise never
  settles and the exception is uncaught (the process terminates). The three cases are
  the constructors of \<open>outcome\<close>.
\<close>

datatype js_error = Error string | TypeError string | SyntaxError string | SystemError string

datatype 'a outcome = Resolved 'a | Rejected js_error | Uncaught js_error

text \<open>A parsed JSON value, as \<open>JSON.parse\<close> returns it.\<close>

datatype json = JNull | JBool bool | JNumber int | JString string
  | JArray "json list" | JObject "(string \<times> json) list"

text \<open>The response object handed to the callback of \<open>https.request\<close>. The field
  \<open>body\<close> is the concatenation of the chunks of the \<open>data\<close> events.\<close>

record incoming_message =
  statusCode :: nat
  statusMessage :: string
  location :: "string option"
  body :: string

text \<open>The entries of the shared drive, and the projection \<open>files(id, name)\<close> that
  \<open>drive.files.list\<close> returns.\<close>

record drive_entry =
  entry_id :: string
  entry_name :: string
  entry_mimeType :: string
  entry_parents :: "string list"

record drive_file =
  file_id :: string
  file_name :: string

record folder_metadata =
  folder_name :: string
  folder_mimeType :: string
  folder_parents :: "string list"

record file_metadata =
  name :: string
  parents :: "string list"

text \<open>Every call that leaves the process is an effect, recorded in the order it is made.\<close>

datatype effect =
    TrackerGet string "(string \<times> string) list"
  | TrackerPost string "(string \<times> string) list" "(string \<times> string) list"
  | DriveList string
  | DriveCreate folder_metadata
  | GetAccessToken
  | SessionPost string string file_metadata
  | UploadPut string nat string string

text \<open>
  The world outside the process: the configuration read at start, the answers of the
  tracker, of the credential provider and of the storage endpoints, the two platform
  functions \<open>new URL\<close> and \<open>JSON.parse\<close>, the folders the drive holds, and the
  trace of the effects so far. A drive call fails when \<open>drive_fault\<close> says so for the
  position of the call in the trace, so that any schedule of transient failures is an input.
  \<open>page_size\<close> is the number of entries the drive puts in one page of a listing when
  the request names none (100 for the Drive service).
\<close>

record world =
  DRIVE_ID :: string
  BUGZILLA_API_KEY :: string
  fetch_answer :: "effect \<Rightarrow> js_error + nat"
  drive_fault :: "nat \<Rightarrow> js_error option"
  mint_id :: "drive_entry list \<Rightarrow> string"
  page_size :: nat
  token_answer :: "js_error + string"
  https_answer :: "effect \<Rightarrow> js_error + incoming_message"
  url_valid :: "string \<Rightarrow> bool"
  json_parse :: "string \<Rightarrow> json option"
  store :: "drive_entry list"
  trace :: "effect list"

definition emit :: "effect \<Rightarrow> world \<Rightarrow> world" where
  "emit e w = w\<lparr>trace := trace w @ [e]\<rparr>"

text \<open>\<open>await\<close> of a promise inside an \<open>async\<close> function: a rejection leaves the
  function at once, as the exception it is turned into.\<close>

definition await :: "(world \<Rightarrow> 'a outcome \<times> world) \<Rightarrow> ('a \<Rightarrow> world \<Rightarrow> 'b outcome \<times> world)
    \<Rightarrow> world \<Rightarrow> 'b outcome \<times> world" where
  "await m k w =
     (case m w of
        (Resolved x, w') \<Rightarrow> k x w'
      | (Rejected e, w') \<Rightarrow> (Rejected e, w')
      | (Uncaught e, w') \<Rightarrow> (Uncaught e, w'))"

text \<open>A template literal \<open>`${x}`\<close> of a value that may be \<open>undefined\<close>.\<close>

definition tmpl :: "string option \<Rightarrow> string" where
  "tmpl x = (case x of None \<Rightarrow> ''undefined'' | Some s \<Rightarrow> s)"

text \<open>The decimal form of a status code in a template literal.\<close>

fun num_to_string :: "nat \<Rightarrow> string" where
  "num_to_string n =
     (if n < 10 then [char_of (48 + n)]
      else num_to_string (n div 10) @ [char_of (48 + n mod 10)])"

declare num_to_string.simps [simp del]

text \<open>\<open>response.ok\<close> of the Fetch standard: the status is in the range 200 to 299.\<close>

definition response_ok :: "nat \<Rightarrow> bool" where
  "response_ok status = (200 \<le> status \<and> status \<le> 299)"

definition fetch :: "effect \<Rightarrow> world \<Rightarrow> nat outcome \<times> world" where
  "fetch rq w =
     (case fetch_answer w rq of
        Inl e \<Rightarrow> (Rejected e, emit rq w)
      | Inr status \<Rightarrow> (Resolved status, emit rq w))"

definition https_request :: "effect \<Rightarrow> world \<Rightarrow> (js_error + incoming_message) \<times> world" where
  "https_request rq w = (https_answer w rq, emit rq w)"

definition get_access_token :: "world \<Rightarrow> string outcome \<times> world" where
  "get_access_token w =
     (case token_answer w of
        Inl e \<Rightarrow> (Rejected e, emit GetAccessToken w)
      | Inr t \<Rightarrow> (Resolved t, emit GetAccessToken w))"

definition folder_mime :: string where
  "folder_mime = ''application/vnd.google-apps.folder''"

text \<open>
  The drive is an external service; these two definitions are its model.
  \<open>drive.files.list\<close> with the query \<open>mimeType='...'\<close> on the shared drive answers
  with the first page of the entries of that type, in the drive's order. The call of
  \<open>getFolderId\<close> names no page size and never reads the token of a next page, so
  the first page is all the code sees: the entries beyond it are not in the answer.
\<close>

definition drive_files_list :: "string \<Rightarrow> world \<Rightarrow> drive_file list outcome \<times> world" where
  "drive_files_list q w =
     (case drive_fault w (length (trace w)) of
        Some e \<Rightarrow> (Rejected e, emit (DriveList q) w)
      | None \<Rightarrow>
          (Resolved (take (page_size w)
                      (map (\<lambda>e. \<lparr>file_id = entry_id e, file_name = entry_name e\<rparr>)
                         (filter (\<lambda>e. entry_mimeType e = q) (store w)))),
           emit (DriveList q) w))"

text \<open>\<open>drive.files.create\<close>: the drive assigns an id and holds the new entry.\<close>

definition drive_files_create :: "folder_metadata \<Rightarrow> world \<Rightarrow> string outcome \<times> world" where
  "drive_files_create md w =
     (case drive_fault w (length (trace w)) of
        Some e \<Rightarrow> (Rejected e, emit (DriveCreate md) w)
      | None \<Rightarrow>
          (let i = mint_id w (store w) in
           (Resolved i,
            emit (DriveCreate md)
              (w\<lparr>store := store w @
                   [\<lparr>entry_id = i, entry_name = folder_name md,
                     entry_mimeType = folder_mimeType md,
                     entry_parents = folder_parents md\<rparr>]\<rparr>))))"

section \<open>The functions of index.js\<close>

text \<open>The loop of \<open>getFolderId\<close>: the id of the first file of that name, and the
  empty string when the loop ends without a match.\<close>

fun scan_files :: "string \<Rightarrow> drive_file list \<Rightarrow> string" where
  "scan_files nm [] = ''''"
| "scan_files nm (file # files) =
     (if file_name file = nm then file_id file else scan_files nm files)"

definition getFolderId :: "string \<Rightarrow> world \<Rightarrow> string outcome \<times> world" where
  "getFolderId nm =
     await (drive_files_list folder_mime) (\<lambda>files w.
       if length files \<noteq> 0 then (Resolved (scan_files nm files), w)
       else (Resolved '''', w))"

definition createFolder :: "string \<Rightarrow> world \<Rightarrow> string outcome \<times> world" where
  "createFolder nm =
     await (getFolderId nm) (\<lambda>folderId w.
       if folderId \<noteq> '''' then (Resolved folderId, w)
       else drive_files_create
              \<lparr>folder_name = nm, folder_mimeType = folder_mime,
               folder_parents = [DRIVE_ID w]\<rparr> w)"

definition comment_text :: string where
  "comment_text =
     ''A log has been successfully uploaded to the team's storage''"

definition createBugzillaComment :: "string option \<Rightarrow> world \<Rightarrow> bool outcome \<times> world" where
  "createBugzillaComment bugId w =
     (let url = ''https://bugzilla.mozilla.org/rest/bug/'' @ tmpl bugId @ ''/comment'';
          data = [(''comment'', comment_text)];
          headers = [(''X-BUGZILLA-API-KEY'', BUGZILLA_API_KEY w)]
      in case fetch (TrackerPost url headers data) w of
           (Resolved status, w') \<Rightarrow> (Resolved (status = 201), w')
         | (Rejected e, w') \<Rightarrow> (Resolved False, w')
         | (Uncaught e, w') \<Rightarrow> (Uncaught e, w'))"

record check_result =
  error :: bool
  message :: "string option"

definition checkBugIdExists :: "string option \<Rightarrow> world \<Rightarrow> check_result outcome \<times> world" where
  "checkBugIdExists bugId w =
     (let url = ''https://bugzilla.mozilla.org/rest/bug/'' @ tmpl bugId;
          headers = [(''X-BUGZILLA-API-KEY'', BUGZILLA_API_KEY w)]
      in case fetch (TrackerGet url headers) w of
           (Resolved status, w') \<Rightarrow>
             if \<not> response_ok status then
               (Resolved \<lparr>error = True,
                  message = Some ''Bug number does not appear to exist''\<rparr>, w')
             else (Resolved \<lparr>error = False, message = None\<rparr>, w')
         | (Rejected e, w') \<Rightarrow> (Resolved \<lparr>error = True, message = Some ''Unknown''\<rparr>, w')
         | (Uncaught e, w') \<Rightarrow> (Uncaught e, w'))"

definition session_path :: "world \<Rightarrow> string" where
  "session_path w =
     ''/upload/drive/v3/files?uploadType=resumable&supportsTeamDrives=true&driveId=''
       @ DRIVE_ID w"

definition createResumableUpload :: "file_metadata \<Rightarrow> world \<Rightarrow> string option outcome \<times> world" where
  "createResumableUpload fileMetadata =
     await get_access_token (\<lambda>accessToken w.
       case https_request (SessionPost (session_path w) accessToken fileMetadata) w of
         (Inr res, w') \<Rightarrow>
           if 200 \<le> statusCode res \<and> statusCode res < 300 then
             (Resolved (location res), w')
           else
             (Rejected (Error (''Failed to create resumable upload session: ''
                @ num_to_string (statusCode res) @ '' '' @ statusMessage res
                @ '' '' @ body res)), w')
       | (Inl e, w') \<Rightarrow> (Rejected e, w'))"

definition uploadFile :: "string option \<Rightarrow> nat \<Rightarrow> string \<Rightarrow> string \<Rightarrow> world
    \<Rightarrow> json outcome \<times> world" where
  "uploadFile uploadUrl fileSize fileMimeType bufferStream w =
     (if \<not> url_valid w (tmpl uploadUrl) then (Rejected (TypeError ''Invalid URL''), w)
      else
        case https_request (UploadPut (tmpl uploadUrl) fileSize fileMimeType bufferStream) w of
          (Inr res, w') \<Rightarrow>
            if 200 \<le> statusCode res \<and> statusCode res < 300 then
              (case json_parse w' (body res) of
                 Some v \<Rightarrow> (Resolved v, w')
               | None \<Rightarrow> (Uncaught (SyntaxError ''JSON.parse''), w'))
            else
              (Rejected (Error (''Failed to upload file: ''
                 @ num_to_string (statusCode res) @ '' '' @ statusMessage res)), w')
        | (Inl e, w') \<Rightarrow> (Rejected e, w'))"

section \<open>The upload endpoint\<close>

record upload_file =
  originalname :: string
  mimetype :: string
  file_size :: nat
  buffer :: string

record request =
  req_file :: "upload_file option"
  req_bugid :: "string option"

text \<open>What the client receives: a status and a body, or nothing when the process died
  of an uncaught exception before \<open>res.send\<close>.\<close>

datatype reply = Reply nat string | NoReply

definition send :: "nat \<Rightarrow> string \<Rightarrow> world \<Rightarrow> reply outcome \<times> world" where
  "send st text w = (Resolved (Reply st text), w)"

text \<open>The \<open>catch\<close> block of the handler.\<close>

definition catch_error :: "reply outcome \<times> world \<Rightarrow> reply \<times> world" where
  "catch_error r =
     (case r of
        (Resolved rep, w) \<Rightarrow> (rep, w)
      | (Rejected e, w) \<Rightarrow> (Reply 500 ''Error uploading file'', w)
      | (Uncaught e, w) \<Rightarrow> (NoReply, w))"

definition uploaded_text :: string where
  "uploaded_text = ''File uploaded successfully.'' @ [CHR 0x0A] @ ''<br>''"

definition post_upload :: "request \<Rightarrow> world \<Rightarrow> reply \<times> world" where
  "post_upload req w =
     (case req_file req of
        Some f \<Rightarrow>
          catch_error
            (await (checkBugIdExists (req_bugid req)) (\<lambda>maybeError.
               if error maybeError then
                 send 200 (''Failed to upload file: '' @ tmpl (message maybeError))
               else
                 await (createFolder (tmpl (req_bugid req))) (\<lambda>folder.
                 await (createResumableUpload
                          \<lparr>name = originalname f, parents = [folder]\<rparr>) (\<lambda>uploadUrl.
                 await (uploadFile uploadUrl (file_size f) (mimetype f) (buffer f)) (\<lambda>_.
                 await (createBugzillaComment (req_bugid req)) (\<lambda>commented.
                   send 200 (uploaded_text @
                     (if commented then ''Added comment to bugzilla''
                      else ''Failed to comment to bugzilla''))))))) w)
      | None \<Rightarrow> (Reply 400 ''No file uploaded'', w))"

section \<open>Storage-side effects\<close>

fun storage_effect :: "effect \<Rightarrow> bool" where
  "storage_effect (TrackerGet url headers) = False"
| "storage_effect (TrackerPost url headers data) = False"
| "storage_effect (DriveList q) = True"
| "storage_effect (DriveCreate md) = True"
| "storage_effect GetAccessToken = True"
| "storage_effect (SessionPost path token md) = True"
| "storage_effect (UploadPut url n mime bytes) = True"

fun is_upload_put :: "effect \<Rightarrow> bool" where
  "is_upload_put (UploadPut url n mime bytes) = True"
| "is_upload_put e = False"


definition is_2xx :: "incoming_message \<Rightarrow> bool" where
  "is_2xx res = (200 \<le> statusCode res \<and> statusCode res < 300)"

text \<open>The effects a run adds to the trace.\<close>

definition new_effects :: "world \<Rightarrow> world \<Rightarrow> effect list" where
  "new_effects w w' = drop (length (trace w)) (trace w')"

section \<open>Requests and listings the statements name\<close>

definition ticket_request :: "string option \<Rightarrow> world \<Rightarrow> effect" where
  "ticket_request bugId w =
     TrackerGet (''https://bugzilla.mozilla.org/rest/bug/'' @ tmpl bugId)
       [(''X-BUGZILLA-API-KEY'', BUGZILLA_API_KEY w)]"

definition comment_request :: "string option \<Rightarrow> world \<Rightarrow> effect" where
  "comment_request bugId w =
     TrackerPost (''https://bugzilla.mozilla.org/rest/bug/'' @ tmpl bugId @ ''/comment'')
       [(''X-BUGZILLA-API-KEY'', BUGZILLA_API_KEY w)]
       [(''comment'', comment_text)]"

definition folder_listing :: "world \<Rightarrow> drive_file list" where
  "folder_listing w =
     take (page_size w)
       (map (\<lambda>e. \<lparr>file_id = entry_id e, file_name = entry_name e\<rparr>)
          (filter (\<lambda>e. entry_mimeType e = folder_mime) (store w)))"

definition new_folder :: "string \<Rightarrow> world \<Rightarrow> folder_metadata" where
  "new_folder nm w =
     \<lparr>folder_name = nm, folder_mimeType = folder_mime, folder_parents = [DRIVE_ID w]\<rparr>"

definition session_request :: "upload_file \<Rightarrow> string \<Rightarrow> string \<Rightarrow> world \<Rightarrow> effect" where
  "session_request f folder token w =
     SessionPost (session_path w) token \<lparr>name = originalname f, parents = [folder]\<rparr>"

definition put_request :: "upload_file \<Rightarrow> string option \<Rightarrow> effect" where
  "put_request f uploadUrl =
     UploadPut (tmpl uploadUrl) (file_size f) (mimetype f) (buffer f)"

text \<open>The services of two worlds answer alike: only the drive's folders and the trace
  may differ.\<close>

definition same_services :: "world \<Rightarrow> world \<Rightarrow> bool" where
  "same_services w w' =
     (DRIVE_ID w' = DRIVE_ID w \<and> BUGZILLA_API_KEY w' = BUGZILLA_API_KEY w
      \<and> fetch_answer w' = fetch_answer w \<and> drive_fault w' = drive_fault w
      \<and> mint_id w' = mint_id w \<and> page_size w' = page_size w
      \<and> token_answer w' = token_answer w
      \<and> https_answer w' = https_answer w \<and> url_valid w' = url_valid w
      \<and> json_parse w' = json_parse w)"

section \<open>Example worlds\<close>

definition example_file :: upload_file where
  "example_file =
     \<lparr>originalname = ''report.log'', mimetype = ''text/plain'', file_size = 1024,
      buffer = replicate 1024 (CHR ''x'')\<rparr>"

definition example_request :: request where
  "example_request = \<lparr>req_file = Some example_file, req_bugid = Some ''12345''\<rparr>"

definition fileless_request :: request where
  "fileless_request = \<lparr>req_file = None, req_bugid = Some ''12345''\<rparr>"

definition descriptor_text :: string where
  "descriptor_text =
     ''{'' @ [CHR 0x22] @ ''id'' @ [CHR 0x22] @ '':'' @ [CHR 0x22] @ ''file1'' @ [CHR 0x22] @ ''}''"

definition example_fetch :: "effect \<Rightarrow> js_error + nat" where
  "example_fetch rq =
     (case rq of
        TrackerGet url headers \<Rightarrow> Inr 200
      | TrackerPost url headers data \<Rightarrow> Inr 201
      | _ \<Rightarrow> Inl (SystemError ''ECONNREFUSED''))"

definition example_https :: "effect \<Rightarrow> js_error + incoming_message" where
  "example_https rq =
     (case rq of
        SessionPost path token md \<Rightarrow>
          Inr \<lparr>statusCode = 200, statusMessage = ''OK'',
               location = Some ''https://www.googleapis.com/upload/session1'', body = []\<rparr>
      | UploadPut url n mime bytes \<Rightarrow>
          Inr \<lparr>statusCode = 200, statusMessage = ''OK'', location = None,
               body = descriptor_text\<rparr>
      | _ \<Rightarrow> Inl (SystemError ''ECONNREFUSED''))"

text \<open>A world in which every service answers with success; the drive is empty. The
  two platform functions are given on the arguments the examples use.\<close>

definition happy_world :: world where
  "happy_world =
     \<lparr>DRIVE_ID = ''drive0'', BUGZILLA_API_KEY = ''key0'',
      fetch_answer = example_fetch,
      drive_fault = (\<lambda>n. None),
      mint_id = (\<lambda>es. ''folder'' @ num_to_string (length es)),
      page_size = 100,
      token_answer = Inr ''token0'',
      https_answer = example_https,
      url_valid = (\<lambda>u. take 8 u = ''https://''),
      json_parse = (\<lambda>s. if s = descriptor_text
                          then Some (JObject [(''id'', JString ''file1'')]) else None),
      store = [], trace = []\<rparr>"

text \<open>The tracker does not know the ticket: it answers the read with 404.\<close>

definition missing_ticket_world :: world where
  "missing_ticket_world =
     happy_world\<lparr>fetch_answer :=
       (\<lambda>rq. case rq of TrackerGet url headers \<Rightarrow> Inr 404 | _ \<Rightarrow> example_fetch rq)\<rparr>"

text \<open>The tracker refuses the comment with 401.\<close>

definition comment_refused_world :: world where
  "comment_refused_world =
     happy_world\<lparr>fetch_answer :=
       (\<lambda>rq. case rq of TrackerPost url headers data \<Rightarrow> Inr 401 | _ \<Rightarrow> example_fetch rq)\<rparr>"

text \<open>No request reaches the tracker.\<close>

definition tracker_down_world :: world where
  "tracker_down_world =
     happy_world\<lparr>fetch_answer := (\<lambda>rq. Inl (SystemError ''ECONNREFUSED''))\<rparr>"

text \<open>Every call to the drive fails.\<close>

definition drive_down_world :: world where
  "drive_down_world = happy_world\<lparr>drive_fault := (\<lambda>n. Some (SystemError ''ECONNRESET''))\<rparr>"

text \<open>The storage endpoint refuses the session with 403.\<close>

definition session_refused_world :: world where
  "session_refused_world =
     happy_world\<lparr>https_answer :=
       (\<lambda>rq. case rq of
          SessionPost path token md \<Rightarrow>
            Inr \<lparr>statusCode = 403, statusMessage = ''Forbidden'', location = None,
                 body = ''quota''\<rparr>
        | _ \<Rightarrow> example_https rq)\<rparr>"

text \<open>The storage endpoint answers the bytes with 503 and the given body.\<close>

definition upload_refused_world :: "string \<Rightarrow> world" where
  "upload_refused_world text =
     happy_world\<lparr>https_answer :=
       (\<lambda>rq. case rq of
          UploadPut url n mime bytes \<Rightarrow>
            Inr \<lparr>statusCode = 503, statusMessage = ''Service Unavailable'', location = None,
                 body = text\<rparr>
        | _ \<Rightarrow> example_https rq)\<rparr>"

text \<open>The drive already holds three folders and a file that has the name of the ticket's folder.\<close>

definition stocked_world :: world where
  "stocked_world =
     happy_world\<lparr>store :=
       [\<lparr>entry_id = ''a1'', entry_name = ''777'', entry_mimeType = folder_mime,
         entry_parents = [''drive0'']\<rparr>,
        \<lparr>entry_id = ''a2'', entry_name = ''12345'', entry_mimeType = ''text/plain'',
         entry_parents = [''a1'']\<rparr>,
        \<lparr>entry_id = ''a3'', entry_name = ''12345'', entry_mimeType = folder_mime,
         entry_parents = [''drive0'']\<rparr>,
        \<lparr>entry_id = ''a4'', entry_name = ''Bug-9'', entry_mimeType = folder_mime,
         entry_parents = [''drive0'']\<rparr>]\<rparr>"






text \<open>The parser returns another descriptor for the same response body.\<close>

definition other_parser :: "string \<Rightarrow> json option" where
  "other_parser s =
     (if s = descriptor_text
      then Some (JObject [(''id'', JString ''file2''), (''kind'', JString ''drive#file'')])
      else None)"

definition other_descriptor_world :: world where
  "other_descriptor_world = happy_world\<lparr>json_parse := other_parser\<rparr>"

text \<open>A computation is blind to the parser when replacing \<open>JSON.parse\<close> by a
  function that accepts the same texts changes neither its outcome nor what it does to
  the world.\<close>

definition blind :: "(string \<Rightarrow> json option) \<Rightarrow> (world \<Rightarrow> 'a outcome \<times> world) \<Rightarrow> bool" where
  "blind p m =
     (\<forall>w. (\<forall>s. (p s = None) = (json_parse w s = None)) \<longrightarrow>
        m (w\<lparr>json_parse := p\<rparr>) = (fst (m w), (snd (m w))\<lparr>json_parse := p\<rparr>)
        \<and> json_parse (snd (m w)) = json_parse w)"

section \<open>How each function runs\<close>

lemma checkBugIdExists_run:
  "checkBugIdExists bugId w =
     (Resolved (case fetch_answer w (ticket_request bugId w) of
                  Inl e \<Rightarrow> \<lparr>error = True, message = Some ''Unknown''\<rparr>
                | Inr status \<Rightarrow>
                    if response_ok status then \<lparr>error = False, message = None\<rparr>
                    else \<lparr>error = True, message = Some ''Bug number does not appear to exist''\<rparr>),
      w\<lparr>trace := trace w @ [ticket_request bugId w]\<rparr>)"
  by (simp add: checkBugIdExists_def fetch_def Let_def ticket_request_def emit_def split: sum.splits)

lemma getFolderId_run:
  "getFolderId nm w =
     (case drive_fault w (length (trace w)) of
        Some e \<Rightarrow> (Rejected e, w\<lparr>trace := trace w @ [DriveList folder_mime]\<rparr>)
      | None \<Rightarrow> (Resolved (scan_files nm (folder_listing w)),
                  w\<lparr>trace := trace w @ [DriveList folder_mime]\<rparr>))"
  by (simp add: getFolderId_def await_def drive_files_list_def emit_def folder_listing_def
      split: option.splits)

lemma createFolder_run:
  "createFolder nm w =
     (case drive_fault w (length (trace w)) of
        Some e \<Rightarrow> (Rejected e, w\<lparr>trace := trace w @ [DriveList folder_mime]\<rparr>)
      | None \<Rightarrow>
          if scan_files nm (folder_listing w) \<noteq> '''' then
            (Resolved (scan_files nm (folder_listing w)),
             w\<lparr>trace := trace w @ [DriveList folder_mime]\<rparr>)
          else
            (case drive_fault w (Suc (length (trace w))) of
               Some e \<Rightarrow>
                 (Rejected e,
                  w\<lparr>trace := trace w @ [DriveList folder_mime, DriveCreate (new_folder nm w)]\<rparr>)
             | None \<Rightarrow>
                 (Resolved (mint_id w (store w)),
                  w\<lparr>store := store w @
                       [\<lparr>entry_id = mint_id w (store w), entry_name = nm,
                         entry_mimeType = folder_mime, entry_parents = [DRIVE_ID w]\<rparr>],
                    trace := trace w @ [DriveList folder_mime, DriveCreate (new_folder nm w)]\<rparr>)))"
  by (simp add: createFolder_def await_def getFolderId_run drive_files_create_def emit_def
      new_folder_def Let_def split: option.splits)

lemma createResumableUpload_run:
  "createResumableUpload md w =
     (case token_answer w of
        Inl e \<Rightarrow> (Rejected e, w\<lparr>trace := trace w @ [GetAccessToken]\<rparr>)
      | Inr t \<Rightarrow>
          (case https_answer w (SessionPost (session_path w) t md) of
             Inl e \<Rightarrow> Rejected e
           | Inr res \<Rightarrow>
               if is_2xx res then Resolved (location res)
               else Rejected (Error (''Failed to create resumable upload session: ''
                      @ num_to_string (statusCode res) @ '' '' @ statusMessage res
                      @ '' '' @ body res)),
           w\<lparr>trace := trace w @ [GetAccessToken, SessionPost (session_path w) t md]\<rparr>))"
  by (simp add: createResumableUpload_def await_def get_access_token_def https_request_def
      emit_def is_2xx_def session_path_def split: sum.splits)

lemma uploadFile_run:
  "uploadFile uploadUrl n mime bytes w =
     (if \<not> url_valid w (tmpl uploadUrl) then (Rejected (TypeError ''Invalid URL''), w)
      else
        (case https_answer w (UploadPut (tmpl uploadUrl) n mime bytes) of
           Inl e \<Rightarrow> Rejected e
         | Inr res \<Rightarrow>
             if is_2xx res then
               (case json_parse w (body res) of
                  Some v \<Rightarrow> Resolved v
                | None \<Rightarrow> Uncaught (SyntaxError ''JSON.parse''))
             else Rejected (Error (''Failed to upload file: ''
                    @ num_to_string (statusCode res) @ '' '' @ statusMessage res)),
         w\<lparr>trace := trace w @ [UploadPut (tmpl uploadUrl) n mime bytes]\<rparr>))"
  by (simp add: uploadFile_def https_request_def emit_def is_2xx_def
      split: sum.splits option.splits)

lemma createBugzillaComment_run:
  "createBugzillaComment bugId w =
     (Resolved (fetch_answer w (comment_request bugId w) = Inr 201),
      w\<lparr>trace := trace w @ [comment_request bugId w]\<rparr>)"
  by (auto simp add: createBugzillaComment_def fetch_def comment_request_def emit_def Let_def
      split: sum.splits)


lemma createFolder_effects:
  assumes "createFolder nm w = (r, w')"
  shows "same_services w w'"
    and "\<exists>fes. trace w' = trace w @ fes
           \<and> (fes = [DriveList folder_mime]
              \<or> fes = [DriveList folder_mime, DriveCreate (new_folder nm w)])"
    and "\<forall>e. r \<noteq> Uncaught e"
  using assms
  by (auto simp: createFolder_run same_services_def split: option.splits if_splits)

lemma post_upload_cases [consumes 0, case_names NoFile TicketError FolderFailed TokenFailed
    SessionFailed UrlInvalid UploadFailed UploadCrashed Succeeded]:
  obtains
    (NoFile) "req_file req = None"
      "post_upload req w = (Reply 400 ''No file uploaded'', w)"
  | (TicketError) f m where "req_file req = Some f"
      "(\<exists>e. fetch_answer w (ticket_request (req_bugid req) w) = Inl e \<and> m = ''Unknown'')
       \<or> (\<exists>s. fetch_answer w (ticket_request (req_bugid req) w) = Inr s \<and> \<not> response_ok s
              \<and> m = ''Bug number does not appear to exist'')"
      "post_upload req w =
         (Reply 200 (''Failed to upload file: '' @ m),
          w\<lparr>trace := trace w @ [ticket_request (req_bugid req) w]\<rparr>)"
  | (FolderFailed) f s fes where "req_file req = Some f"
      "fetch_answer w (ticket_request (req_bugid req) w) = Inr s" "response_ok s"
      "fes = [DriveList folder_mime]
       \<or> fes = [DriveList folder_mime, DriveCreate (new_folder (tmpl (req_bugid req)) w)]"
      "fst (post_upload req w) = Reply 500 ''Error uploading file''"
      "new_effects w (snd (post_upload req w)) = ticket_request (req_bugid req) w # fes"
  | (TokenFailed) f s fes e where "req_file req = Some f"
      "fetch_answer w (ticket_request (req_bugid req) w) = Inr s" "response_ok s"
      "fes = [DriveList folder_mime]
       \<or> fes = [DriveList folder_mime, DriveCreate (new_folder (tmpl (req_bugid req)) w)]"
      "token_answer w = Inl e"
      "fst (post_upload req w) = Reply 500 ''Error uploading file''"
      "new_effects w (snd (post_upload req w)) =
         ticket_request (req_bugid req) w # fes @ [GetAccessToken]"
  | (SessionFailed) f s fes t folder where "req_file req = Some f"
      "fetch_answer w (ticket_request (req_bugid req) w) = Inr s" "response_ok s"
      "fes = [DriveList folder_mime]
       \<or> fes = [DriveList folder_mime, DriveCreate (new_folder (tmpl (req_bugid req)) w)]"
      "token_answer w = Inr t"
      "(\<exists>e. https_answer w (session_request f folder t w) = Inl e)
       \<or> (\<exists>res. https_answer w (session_request f folder t w) = Inr res \<and> \<not> is_2xx res)"
      "fst (post_upload req w) = Reply 500 ''Error uploading file''"
      "new_effects w (snd (post_upload req w)) =
         ticket_request (req_bugid req) w # fes
           @ [GetAccessToken, session_request f folder t w]"
  | (UrlInvalid) f s fes t folder res where "req_file req = Some f"
      "fetch_answer w (ticket_request (req_bugid req) w) = Inr s" "response_ok s"
      "fes = [DriveList folder_mime]
       \<or> fes = [DriveList folder_mime, DriveCreate (new_folder (tmpl (req_bugid req)) w)]"
      "token_answer w = Inr t"
      "https_answer w (session_request f folder t w) = Inr res" "is_2xx res"
      "\<not> url_valid w (tmpl (location res))"
      "fst (post_upload req w) = Reply 500 ''Error uploading file''"
      "new_effects w (snd (post_upload req w)) =
         ticket_request (req_bugid req) w # fes
           @ [GetAccessToken, session_request f folder t w]"
  | (UploadFailed) f s fes t folder res where "req_file req = Some f"
      "fetch_answer w (ticket_request (req_bugid req) w) = Inr s" "response_ok s"
      "fes = [DriveList folder_mime]
       \<or> fes = [DriveList folder_mime, DriveCreate (new_folder (tmpl (req_bugid req)) w)]"
      "token_answer w = Inr t"
      "https_answer w (session_request f folder t w) = Inr res" "is_2xx res"
      "url_valid w (tmpl (location res))"
      "(\<exists>e. https_answer w (put_request f (location res)) = Inl e)
       \<or> (\<exists>r. https_answer w (put_request f (location res)) = Inr r \<and> \<not> is_2xx r)"
      "fst (post_upload req w) = Reply 500 ''Error uploading file''"
      "new_effects w (snd (post_upload req w)) =
         ticket_request (req_bugid req) w # fes
           @ [GetAccessToken, session_request f folder t w, put_request f (location res)]"
  | (UploadCrashed) f s fes t folder res r where "req_file req = Some f"
      "fetch_answer w (ticket_request (req_bugid req) w) = Inr s" "response_ok s"
      "fes = [DriveList folder_mime]
       \<or> fes = [DriveList folder_mime, DriveCreate (new_folder (tmpl (req_bugid req)) w)]"
      "token_answer w = Inr t"
      "https_answer w (session_request f folder t w) = Inr res" "is_2xx res"
      "url_valid w (tmpl (location res))"
      "https_answer w (put_request f (location res)) = Inr r" "is_2xx r"
      "json_parse w (body r) = None"
      "fst (post_upload req w) = NoReply"
      "new_effects w (snd (post_upload req w)) =
         ticket_request (req_bugid req) w # fes
           @ [GetAccessToken, session_request f folder t w, put_request f (location res)]"
  | (Succeeded) f s fes t folder res r d where "req_file req = Some f"
      "fetch_answer w (ticket_request (req_bugid req) w) = Inr s" "response_ok s"
      "fes = [DriveList folder_mime]
       \<or> fes = [DriveList folder_mime, DriveCreate (new_folder (tmpl (req_bugid req)) w)]"
      "token_answer w = Inr t"
      "https_answer w (session_request f folder t w) = Inr res" "is_2xx res"
      "url_valid w (tmpl (location res))"
      "https_answer w (put_request f (location res)) = Inr r" "is_2xx r"
      "json_parse w (body r) = Some d"
      "fst (post_upload req w) =
         Reply 200 (uploaded_text @
           (if fetch_answer w (comment_request (req_bugid req) w) = Inr 201
            then ''Added comment to bugzilla'' else ''Failed to comment to bugzilla''))"
      "new_effects w (snd (post_upload req w)) =
         ticket_request (req_bugid req) w # fes
           @ [GetAccessToken, session_request f folder t w, put_request f (location res),
              comment_request (req_bugid req) w]"
proof (cases "req_file req")
  case None
  then have "post_upload req w = (Reply 400 ''No file uploaded'', w)"
    by (simp add: post_upload_def)
  with None show ?thesis by (rule NoFile)
next
  case (Some f)
  let ?G = "ticket_request (req_bugid req) w"
  let ?w1 = "w\<lparr>trace := trace w @ [?G]\<rparr>"
  show ?thesis
  proof (cases "fetch_answer w ?G")
    case (Inl e)
    with Some have "post_upload req w = (Reply 200 (''Failed to upload file: '' @ ''Unknown''), ?w1)"
      by (simp add: post_upload_def checkBugIdExists_run await_def send_def catch_error_def tmpl_def)
    with Some Inl show ?thesis by (intro TicketError [of f "''Unknown''"]) auto
  next
    case (Inr s)
    show ?thesis
    proof (cases "response_ok s")
      case False
      with Some Inr have "post_upload req w =
          (Reply 200 (''Failed to upload file: '' @ ''Bug number does not appear to exist''), ?w1)"
        by (simp add: post_upload_def checkBugIdExists_run await_def send_def catch_error_def tmpl_def)
      with Some Inr False show ?thesis
        by (intro TicketError [of f "''Bug number does not appear to exist''"]) auto
    next
      case True
      let ?nm = "tmpl (req_bugid req)"
      obtain r w2 where cf: "createFolder ?nm ?w1 = (r, w2)"
        by (cases "createFolder ?nm ?w1")
      from createFolder_effects [OF cf] obtain fes
        where same: "same_services ?w1 w2"
          and tr: "trace w2 = trace ?w1 @ fes"
          and fes0: "fes = [DriveList folder_mime]
             \<or> fes = [DriveList folder_mime, DriveCreate (new_folder ?nm ?w1)]"
          and nu: "\<forall>e. r \<noteq> Uncaught e"
        by blast
      have fes: "fes = [DriveList folder_mime]
          \<or> fes = [DriveList folder_mime, DriveCreate (new_folder ?nm w)]"
        using fes0 by (simp add: new_folder_def)
      have svc: "DRIVE_ID w2 = DRIVE_ID w" "BUGZILLA_API_KEY w2 = BUGZILLA_API_KEY w"
        "fetch_answer w2 = fetch_answer w" "token_answer w2 = token_answer w"
        "https_answer w2 = https_answer w" "url_valid w2 = url_valid w"
        "json_parse w2 = json_parse w"
        using same by (simp_all add: same_services_def)
      have head: "post_upload req w =
          catch_error
            (case r of
               Resolved folder \<Rightarrow>
                 await (createResumableUpload
                          \<lparr>name = originalname f, parents = [folder]\<rparr>) (\<lambda>uploadUrl.
                 await (uploadFile uploadUrl (file_size f) (mimetype f) (buffer f)) (\<lambda>_.
                 await (createBugzillaComment (req_bugid req)) (\<lambda>commented.
                   send 200 (uploaded_text @
                     (if commented then ''Added comment to bugzilla''
                      else ''Failed to comment to bugzilla''))))) w2
             | Rejected e \<Rightarrow> (Rejected e, w2)
             | Uncaught e \<Rightarrow> (Uncaught e, w2))"
        using Some Inr True cf
        by (simp add: post_upload_def checkBugIdExists_run await_def split: outcome.splits)
      note norm = svc tr new_effects_def session_request_def session_path_def put_request_def
        comment_request_def ticket_request_def
      show ?thesis
      proof (cases r)
        case (Uncaught e)
        with nu show ?thesis by simp
      next
        case (Rejected e)
        with head have "fst (post_upload req w) = Reply 500 ''Error uploading file''"
          "new_effects w (snd (post_upload req w)) = ?G # fes"
          by (simp_all add: catch_error_def norm)
        with Some Inr True fes show ?thesis by (intro FolderFailed [of f s fes]) auto
      next
        case (Resolved folder)
        show ?thesis
        proof (cases "token_answer w")
          case (Inl e)
          with head Resolved have "fst (post_upload req w) = Reply 500 ''Error uploading file''"
            "new_effects w (snd (post_upload req w)) = ?G # fes @ [GetAccessToken]"
            by (simp_all add: catch_error_def await_def createResumableUpload_run norm)
          with Some Inr True fes Inl show ?thesis by (intro TokenFailed [of f s fes e]) auto
        next
          case tok: (Inr t)
          let ?S = "session_request f folder t w"
          note run = catch_error_def await_def send_def createResumableUpload_run
            uploadFile_run createBugzillaComment_run norm
          show ?thesis
          proof (cases "https_answer w ?S")
            case (Inl e)
            with head Resolved tok
            have "fst (post_upload req w) = Reply 500 ''Error uploading file''"
              "new_effects w (snd (post_upload req w)) = ?G # fes @ [GetAccessToken, ?S]"
              by (simp_all add: run)
            with Some Inr True fes tok Inl show ?thesis
              by (intro SessionFailed [of f s fes t folder]) auto
          next
            case ses: (Inr res)
            show ?thesis
            proof (cases "is_2xx res")
              case False
              with head Resolved tok ses
              have "fst (post_upload req w) = Reply 500 ''Error uploading file''"
                "new_effects w (snd (post_upload req w)) = ?G # fes @ [GetAccessToken, ?S]"
                by (simp_all add: run)
              with Some Inr True fes tok ses False show ?thesis
                by (intro SessionFailed [of f s fes t folder]) auto
            next
              case ok: True
              let ?P = "put_request f (location res)"
              show ?thesis
              proof (cases "url_valid w (tmpl (location res))")
                case False
                with head Resolved tok ses ok
                have "fst (post_upload req w) = Reply 500 ''Error uploading file''"
                  "new_effects w (snd (post_upload req w)) = ?G # fes @ [GetAccessToken, ?S]"
                  by (simp_all add: run)
                with Some Inr True fes tok ses ok False show ?thesis
                  by (intro UrlInvalid [of f s fes t folder res]) auto
              next
                case valid: True
                show ?thesis
                proof (cases "https_answer w ?P")
                  case (Inl e)
                  with head Resolved tok ses ok valid
                  have "fst (post_upload req w) = Reply 500 ''Error uploading file''"
                    "new_effects w (snd (post_upload req w)) =
                       ?G # fes @ [GetAccessToken, ?S, ?P]"
                    by (simp_all add: run)
                  with Some Inr True fes tok ses ok valid Inl show ?thesis
                    by (intro UploadFailed [of f s fes t folder res]) auto
                next
                  case put: (Inr r')
                  show ?thesis
                  proof (cases "is_2xx r'")
                    case False
                    with head Resolved tok ses ok valid put
                    have "fst (post_upload req w) = Reply 500 ''Error uploading file''"
                      "new_effects w (snd (post_upload req w)) =
                         ?G # fes @ [GetAccessToken, ?S, ?P]"
                      by (simp_all add: run)
                    with Some Inr True fes tok ses ok valid put False show ?thesis
                      by (intro UploadFailed [of f s fes t folder res]) auto
                  next
                    case ok': True
                    show ?thesis
                    proof (cases "json_parse w (body r')")
                      case None
                      with head Resolved tok ses ok valid put ok'
                      have "fst (post_upload req w) = NoReply"
                        "new_effects w (snd (post_upload req w)) =
                           ?G # fes @ [GetAccessToken, ?S, ?P]"
                        by (simp_all add: run)
                      with Some Inr True fes tok ses ok valid put ok' None show ?thesis
                        by (intro UploadCrashed [of f s fes t folder res r']) auto
                    next
                      case (Some d)
                      with head Resolved tok ses ok valid put ok'
                      have "fst (post_upload req w) =
                          Reply 200 (uploaded_text @
                            (if fetch_answer w (comment_request (req_bugid req) w) = Inr 201
                             then ''Added comment to bugzilla''
                             else ''Failed to comment to bugzilla''))"
                        "new_effects w (snd (post_upload req w)) =
                           ?G # fes @ [GetAccessToken, ?S, ?P,
                             comment_request (req_bugid req) w]"
                        by (simp_all add: run)
                      with \<open>req_file req = Some f\<close> Inr True fes tok ses ok valid put ok' Some
                      show ?thesis
                        by (intro Succeeded [of f s fes t folder res r' d]) auto
                    qed
                  qed
                qed
              qed
            qed
          qed
        qed
      qed
    qed
  qed
qed

section \<open>Evaluation at the example worlds\<close>

lemmas world_defs = happy_world_def example_request_def example_file_def example_fetch_def
  example_https_def

lemmas req_defs = ticket_request_def comment_request_def session_request_def put_request_def
  session_path_def new_folder_def

lemma num_to_string_examples:
  "num_to_string 0 = ''0''" "num_to_string 1 = ''1''" "num_to_string 4 = ''4''"
  "num_to_string (Suc (Suc (Suc (Suc 0)))) = ''4''"
  "num_to_string 403 = ''403''" "num_to_string 503 = ''503''"
  by code_simp+

lemmas eval_defs = num_to_string_examples post_upload_def checkBugIdExists_run createFolder_run
  createResumableUpload_run uploadFile_run createBugzillaComment_run await_def send_def
  catch_error_def new_effects_def folder_listing_def response_ok_def is_2xx_def tmpl_def
  folder_mime_def

section \<open>The ticket check\<close>

text \<open>
  C1. When the tracker answers the existence probe of the request's ticket id with a
  status outside 200..299, the handler makes no call to the storage side (no folder list,
  no folder create, no token, no session, no bytes), leaves the drive's folders as they
  were, and answers with an error text: the only effect of a request with a file is the
  probe itself, and a request without a file makes no call at all.
\<close>

theorem ticket_missing_no_storage_effect:
  assumes "fetch_answer w (ticket_request (req_bugid req) w) = Inr status"
    and "\<not> response_ok status"
  shows "fst (post_upload req w) =
           (case req_file req of
              None \<Rightarrow> Reply 400 ''No file uploaded''
            | Some f \<Rightarrow> Reply 200 ''Failed to upload file: Bug number does not appear to exist'')
       \<and> new_effects w (snd (post_upload req w)) =
           (case req_file req of
              None \<Rightarrow> [] | Some f \<Rightarrow> [ticket_request (req_bugid req) w])
       \<and> filter storage_effect (new_effects w (snd (post_upload req w))) = []
       \<and> store (snd (post_upload req w)) = store w"
  using assms
  by (cases rule: post_upload_cases [of req w])
     (auto simp: new_effects_def ticket_request_def)

theorem ticket_missing_witness:
  "fetch_answer missing_ticket_world
       (ticket_request (req_bugid example_request) missing_ticket_world) = Inr 404
   \<and> \<not> response_ok 404
   \<and> post_upload example_request missing_ticket_world =
       (Reply 200 ''Failed to upload file: Bug number does not appear to exist'',
        missing_ticket_world\<lparr>trace :=
          [TrackerGet ''https://bugzilla.mozilla.org/rest/bug/12345''
             [(''X-BUGZILLA-API-KEY'', ''key0'')]]\<rparr>)
   \<and> filter storage_effect
        (new_effects missing_ticket_world
           (snd (post_upload example_request missing_ticket_world))) = []"
  using ticket_missing_no_storage_effect [of missing_ticket_world example_request 404]
  by (simp add: missing_ticket_world_def world_defs req_defs response_ok_def tmpl_def
      post_upload_def checkBugIdExists_run await_def send_def catch_error_def)

section \<open>The status of the reply\<close>

text \<open>
  C2, as stated, fails for the ticket check. The tracker answers the probe with 404: the ticket check fails, and the reply carries
  the status 200 (the handler calls \<open>res.send\<close> without setting a status), not 500.
\<close>

theorem ticket_failure_status_counterexample:
  "fst (checkBugIdExists (req_bugid example_request) missing_ticket_world) =
     Resolved \<lparr>error = True, message = Some ''Bug number does not appear to exist''\<rparr>
   \<and> fst (post_upload example_request missing_ticket_world) =
     Reply 200 ''Failed to upload file: Bug number does not appear to exist''"
  by (simp add: missing_ticket_world_def world_defs req_defs eval_defs)

text \<open>
  C2 (amended). The reply is 400 "No file uploaded" when no file is attached; 200 with
  "Failed to upload file: " and the reason when the ticket check reports an error; 500
  "Error uploading file" when the folder resolution, the session initiation or the byte
  streaming is rejected; and 200 with "File uploaded successfully." and the comment's
  sub-status when the bytes were stored, whether the comment was posted or not. These
  are the only replies; none is sent when the process dies of an uncaught exception.
\<close>

theorem upload_reply_status:
  "(req_file req = None \<longrightarrow> fst (post_upload req w) = Reply 400 ''No file uploaded'')
   \<and> (req_file req = Some f \<longrightarrow>
        checkBugIdExists (req_bugid req) w = (Resolved maybeError, wA) \<longrightarrow>
        (error maybeError \<longrightarrow>
           fst (post_upload req w) =
             Reply 200 (''Failed to upload file: '' @ tmpl (message maybeError)))
        \<and> (\<not> error maybeError \<longrightarrow>
             (createFolder (tmpl (req_bugid req)) wA = (Rejected eF, wB) \<longrightarrow>
                fst (post_upload req w) = Reply 500 ''Error uploading file'')
             \<and> (createFolder (tmpl (req_bugid req)) wA = (Resolved folder, wB) \<longrightarrow>
                  (createResumableUpload \<lparr>name = originalname f, parents = [folder]\<rparr> wB =
                     (Rejected eS, wC) \<longrightarrow>
                     fst (post_upload req w) = Reply 500 ''Error uploading file'')
                  \<and> (createResumableUpload \<lparr>name = originalname f, parents = [folder]\<rparr> wB =
                       (Resolved uploadUrl, wC) \<longrightarrow>
                       (uploadFile uploadUrl (file_size f) (mimetype f) (buffer f) wC =
                          (Rejected eU, wD) \<longrightarrow>
                          fst (post_upload req w) = Reply 500 ''Error uploading file'')
                       \<and> (uploadFile uploadUrl (file_size f) (mimetype f) (buffer f) wC =
                            (Resolved descriptor, wD) \<longrightarrow>
                            createBugzillaComment (req_bugid req) wD = (Resolved commented, wE) \<longrightarrow>
                            fst (post_upload req w) =
                              Reply 200 (''File uploaded successfully.\<newline><br>'' @
                                (if commented then ''Added comment to bugzilla''
                                 else ''Failed to comment to bugzilla'')))))))
   \<and> fst (post_upload req w) \<in>
       {Reply 400 ''No file uploaded'',
        Reply 200 ''Failed to upload file: Unknown'',
        Reply 200 ''Failed to upload file: Bug number does not appear to exist'',
        Reply 500 ''Error uploading file'',
        Reply 200 ''File uploaded successfully.\<newline><br>Added comment to bugzilla'',
        Reply 200 ''File uploaded successfully.\<newline><br>Failed to comment to bugzilla'',
        NoReply}"
proof (intro conjI)
  show "fst (post_upload req w) \<in>
       {Reply 400 ''No file uploaded'',
        Reply 200 ''Failed to upload file: Unknown'',
        Reply 200 ''Failed to upload file: Bug number does not appear to exist'',
        Reply 500 ''Error uploading file'',
        Reply 200 ''File uploaded successfully.\<newline><br>Added comment to bugzilla'',
        Reply 200 ''File uploaded successfully.\<newline><br>Failed to comment to bugzilla'',
        NoReply}"
    by (cases rule: post_upload_cases [of req w]) (auto simp: uploaded_text_def)
qed (simp_all add: post_upload_def await_def send_def catch_error_def uploaded_text_def)

theorem upload_reply_status_witness:
  "fst (post_upload fileless_request happy_world) = Reply 400 ''No file uploaded''
   \<and> fst (post_upload example_request missing_ticket_world) =
      Reply 200 ''Failed to upload file: Bug number does not appear to exist''
   \<and> fst (post_upload example_request drive_down_world) = Reply 500 ''Error uploading file''
   \<and> fst (post_upload example_request session_refused_world) = Reply 500 ''Error uploading file''
   \<and> fst (post_upload example_request (upload_refused_world ''quota exceeded'')) =
      Reply 500 ''Error uploading file''
   \<and> fst (post_upload example_request happy_world) =
      Reply 200 ''File uploaded successfully.\<newline><br>Added comment to bugzilla''
   \<and> fst (post_upload example_request comment_refused_world) =
      Reply 200 ''File uploaded successfully.\<newline><br>Failed to comment to bugzilla''"
proof -
  have nofile: "fst (post_upload fileless_request happy_world) = Reply 400 ''No file uploaded''"
    using upload_reply_status [where req = fileless_request and w = happy_world]
    by (simp add: fileless_request_def)
  have ticket: "fst (post_upload example_request missing_ticket_world) =
      Reply 200 ''Failed to upload file: Bug number does not appear to exist''"
  proof -
    let ?w = "missing_ticket_world"
    let ?w1 = "snd (checkBugIdExists (req_bugid example_request) ?w)"
    have attached: "req_file example_request = Some example_file"
      by (simp add: missing_ticket_world_def world_defs req_defs eval_defs)
    have check: "checkBugIdExists (req_bugid example_request) ?w =
        (Resolved (\<lparr>error = True, message = Some ''Bug number does not appear to exist''\<rparr>), ?w1)"
      by (simp add: missing_ticket_world_def world_defs req_defs eval_defs)
    from upload_reply_status
       [where req = "example_request"
        and w = "?w"
        and f = "example_file"
        and wA = "?w1"
        and maybeError = "\<lparr>error = True, message = Some ''Bug number does not appear to exist''\<rparr>"]
      attached check
    show ?thesis by (simp add: tmpl_def)
  qed
  have drive: "fst (post_upload example_request drive_down_world) = Reply 500 ''Error uploading file''"
  proof -
    let ?w = "drive_down_world"
    let ?w1 = "snd (checkBugIdExists (req_bugid example_request) ?w)"
    let ?w2 = "snd (createFolder (tmpl (req_bugid example_request)) ?w1)"
    have attached: "req_file example_request = Some example_file"
      by (simp add: drive_down_world_def world_defs req_defs eval_defs)
    have check: "checkBugIdExists (req_bugid example_request) ?w =
        (Resolved (\<lparr>error = False, message = None\<rparr>), ?w1)"
      by (simp add: drive_down_world_def world_defs req_defs eval_defs)
    have folder: "createFolder (tmpl (req_bugid example_request)) ?w1 =
        (Rejected (SystemError ''ECONNRESET''), ?w2)"
      by (simp add: drive_down_world_def world_defs req_defs eval_defs)
    from upload_reply_status
       [where req = "example_request"
        and w = "?w"
        and f = "example_file"
        and wA = "?w1"
        and maybeError = "\<lparr>error = False, message = None\<rparr>"
        and wB = "?w2"
        and eF = "SystemError ''ECONNRESET''"]
      attached check folder
    show ?thesis by (simp add: tmpl_def)
  qed
  have session: "fst (post_upload example_request session_refused_world) = Reply 500 ''Error uploading file''"
  proof -
    let ?w = "session_refused_world"
    let ?w1 = "snd (checkBugIdExists (req_bugid example_request) ?w)"
    let ?w2 = "snd (createFolder (tmpl (req_bugid example_request)) ?w1)"
    let ?md = "\<lparr>name = originalname example_file, parents = [''folder0'']\<rparr>"
    let ?w3 = "snd (createResumableUpload ?md ?w2)"
    have attached: "req_file example_request = Some example_file"
      by (simp add: session_refused_world_def world_defs req_defs eval_defs)
    have check: "checkBugIdExists (req_bugid example_request) ?w =
        (Resolved (\<lparr>error = False, message = None\<rparr>), ?w1)"
      by (simp add: session_refused_world_def world_defs req_defs eval_defs)
    have folder: "createFolder (tmpl (req_bugid example_request)) ?w1 =
        (Resolved (''folder0''), ?w2)"
      by (simp add: session_refused_world_def world_defs req_defs eval_defs)
    have session: "createResumableUpload ?md ?w2 =
        (Rejected (Error ''Failed to create resumable upload session: 403 Forbidden quota''), ?w3)"
      by (simp add: session_refused_world_def world_defs req_defs eval_defs)
    from upload_reply_status
       [where req = "example_request"
        and w = "?w"
        and f = "example_file"
        and wA = "?w1"
        and maybeError = "\<lparr>error = False, message = None\<rparr>"
        and wB = "?w2"
        and folder = "''folder0''"
        and wC = "?w3"
        and eS = "Error ''Failed to create resumable upload session: 403 Forbidden quota''"]
      attached check folder session
    show ?thesis by (simp add: tmpl_def)
  qed
  have bytes: "fst (post_upload example_request (upload_refused_world ''quota exceeded'')) =
      Reply 500 ''Error uploading file''"
  proof -
    let ?w = "upload_refused_world ''quota exceeded''"
    let ?w1 = "snd (checkBugIdExists (req_bugid example_request) ?w)"
    let ?w2 = "snd (createFolder (tmpl (req_bugid example_request)) ?w1)"
    let ?md = "\<lparr>name = originalname example_file, parents = [''folder0'']\<rparr>"
    let ?w3 = "snd (createResumableUpload ?md ?w2)"
    let ?w4 = "snd (uploadFile (Some ''https://www.googleapis.com/upload/session1'') (file_size example_file) (mimetype example_file)
        (buffer example_file) ?w3)"
    have attached: "req_file example_request = Some example_file"
      by (simp add: upload_refused_world_def world_defs req_defs eval_defs)
    have check: "checkBugIdExists (req_bugid example_request) ?w =
        (Resolved (\<lparr>error = False, message = None\<rparr>), ?w1)"
      by (simp add: upload_refused_world_def world_defs req_defs eval_defs)
    have folder: "createFolder (tmpl (req_bugid example_request)) ?w1 =
        (Resolved (''folder0''), ?w2)"
      by (simp add: upload_refused_world_def world_defs req_defs eval_defs)
    have session: "createResumableUpload ?md ?w2 =
        (Resolved (Some ''https://www.googleapis.com/upload/session1''), ?w3)"
      by (simp add: upload_refused_world_def world_defs req_defs eval_defs)
    have upload: "uploadFile (Some ''https://www.googleapis.com/upload/session1'') (file_size example_file) (mimetype example_file)
        (buffer example_file) ?w3 =
        (Rejected (Error ''Failed to upload file: 503 Service Unavailable''), ?w4)"
      by (simp add: upload_refused_world_def world_defs req_defs eval_defs)
    from upload_reply_status
       [where req = "example_request"
        and w = "?w"
        and f = "example_file"
        and wA = "?w1"
        and maybeError = "\<lparr>error = False, message = None\<rparr>"
        and wB = "?w2"
        and folder = "''folder0''"
        and wC = "?w3"
        and uploadUrl = "Some ''https://www.googleapis.com/upload/session1''"
        and wD = "?w4"
        and eU = "Error ''Failed to upload file: 503 Service Unavailable''"]
      attached check folder session upload
    show ?thesis by (simp add: tmpl_def)
  qed
  have posted: "fst (post_upload example_request happy_world) =
      Reply 200 ''File uploaded successfully.\<newline><br>Added comment to bugzilla''"
  proof -
    let ?w = "happy_world"
    let ?w1 = "snd (checkBugIdExists (req_bugid example_request) ?w)"
    let ?w2 = "snd (createFolder (tmpl (req_bugid example_request)) ?w1)"
    let ?md = "\<lparr>name = originalname example_file, parents = [''folder0'']\<rparr>"
    let ?w3 = "snd (createResumableUpload ?md ?w2)"
    let ?w4 = "snd (uploadFile (Some ''https://www.googleapis.com/upload/session1'') (file_size example_file) (mimetype example_file)
        (buffer example_file) ?w3)"
    let ?w5 = "snd (createBugzillaComment (req_bugid example_request) ?w4)"
    have attached: "req_file example_request = Some example_file"
      by (simp add: happy_world_def world_defs req_defs eval_defs)
    have check: "checkBugIdExists (req_bugid example_request) ?w =
        (Resolved (\<lparr>error = False, message = None\<rparr>), ?w1)"
      by (simp add: happy_world_def world_defs req_defs eval_defs)
    have folder: "createFolder (tmpl (req_bugid example_request)) ?w1 =
        (Resolved (''folder0''), ?w2)"
      by (simp add: happy_world_def world_defs req_defs eval_defs)
    have session: "createResumableUpload ?md ?w2 =
        (Resolved (Some ''https://www.googleapis.com/upload/session1''), ?w3)"
      by (simp add: happy_world_def world_defs req_defs eval_defs)
    have upload: "uploadFile (Some ''https://www.googleapis.com/upload/session1'') (file_size example_file) (mimetype example_file)
        (buffer example_file) ?w3 =
        (Resolved (JObject [(''id'', JString ''file1'')]), ?w4)"
      by (simp add: happy_world_def world_defs req_defs eval_defs)
    have comment: "createBugzillaComment (req_bugid example_request) ?w4 =
        (Resolved (True), ?w5)"
      by (simp add: happy_world_def world_defs req_defs eval_defs)
    from upload_reply_status
       [where req = "example_request"
        and w = "?w"
        and f = "example_file"
        and wA = "?w1"
        and maybeError = "\<lparr>error = False, message = None\<rparr>"
        and wB = "?w2"
        and folder = "''folder0''"
        and wC = "?w3"
        and uploadUrl = "Some ''https://www.googleapis.com/upload/session1''"
        and wD = "?w4"
        and descriptor = "JObject [(''id'', JString ''file1'')]"
        and wE = "?w5"
        and commented = "True"]
      attached check folder session upload comment
    show ?thesis by (simp add: tmpl_def)
  qed
  have soft: "fst (post_upload example_request comment_refused_world) =
      Reply 200 ''File uploaded successfully.\<newline><br>Failed to comment to bugzilla''"
  proof -
    let ?w = "comment_refused_world"
    let ?w1 = "snd (checkBugIdExists (req_bugid example_request) ?w)"
    let ?w2 = "snd (createFolder (tmpl (req_bugid example_request)) ?w1)"
    let ?md = "\<lparr>name = originalname example_file, parents = [''folder0'']\<rparr>"
    let ?w3 = "snd (createResumableUpload ?md ?w2)"
    let ?w4 = "snd (uploadFile (Some ''https://www.googleapis.com/upload/session1'') (file_size example_file) (mimetype example_file)
        (buffer example_file) ?w3)"
    let ?w5 = "snd (createBugzillaComment (req_bugid example_request) ?w4)"
    have attached: "req_file example_request = Some example_file"
      by (simp add: comment_refused_world_def world_defs req_defs eval_defs)
    have check: "checkBugIdExists (req_bugid example_request) ?w =
        (Resolved (\<lparr>error = False, message = None\<rparr>), ?w1)"
      by (simp add: comment_refused_world_def world_defs req_defs eval_defs)
    have folder: "createFolder (tmpl (req_bugid example_request)) ?w1 =
        (Resolved (''folder0''), ?w2)"
      by (simp add: comment_refused_world_def world_defs req_defs eval_defs)
    have session: "createResumableUpload ?md ?w2 =
        (Resolved (Some ''https://www.googleapis.com/upload/session1''), ?w3)"
      by (simp add: comment_refused_world_def world_defs req_defs eval_defs)
    have upload: "uploadFile (Some ''https://www.googleapis.com/upload/session1'') (file_size example_file) (mimetype example_file)
        (buffer example_file) ?w3 =
        (Resolved (JObject [(''id'', JString ''file1'')]), ?w4)"
      by (simp add: comment_refused_world_def world_defs req_defs eval_defs)
    have comment: "createBugzillaComment (req_bugid example_request) ?w4 =
        (Resolved (False), ?w5)"
      by (simp add: comment_refused_world_def world_defs req_defs eval_defs)
    from upload_reply_status
       [where req = "example_request"
        and w = "?w"
        and f = "example_file"
        and wA = "?w1"
        and maybeError = "\<lparr>error = False, message = None\<rparr>"
        and wB = "?w2"
        and folder = "''folder0''"
        and wC = "?w3"
        and uploadUrl = "Some ''https://www.googleapis.com/upload/session1''"
        and wD = "?w4"
        and descriptor = "JObject [(''id'', JString ''file1'')]"
        and wE = "?w5"
        and commented = "False"]
      attached check folder session upload comment
    show ?thesis by (simp add: tmpl_def)
  qed
  from nofile ticket drive session bytes posted soft show ?thesis by blast
qed

section \<open>The folder resolver\<close>

lemma scan_files_find:
  "scan_files nm (map (\<lambda>e. \<lparr>file_id = entry_id e, file_name = entry_name e\<rparr>) es) =
     (case find (\<lambda>e. entry_name e = nm) es of None \<Rightarrow> '''' | Some e \<Rightarrow> entry_id e)"
  by (induction es) auto

lemma find_filter: "find Q (filter P es) = find (\<lambda>e. P e \<and> Q e) es"
  by (induction es) auto

lemma scan_files_absent: "\<forall>f \<in> set xs. file_name f \<noteq> nm \<Longrightarrow> scan_files nm xs = ''''"
  by (induction xs) auto





text \<open>
  C4. The resolver compares the requested name, by equality of strings, with the names
  of the entries of the shared drive whose type is the folder type, as far as the page
  of the listing holds them, and returns the id of the first one that is equal (the
  empty string when none is); when the folders fit in the page, that is the first such
  entry of the whole drive. When no entry of the drive is equal, \<open>createFolder\<close> asks
  the drive for a new folder of that name whose only parent is the root collection, and
  returns the id the drive assigned.
\<close>

theorem folder_lookup_and_create:
  assumes "drive_fault w (length (trace w)) = None"
  shows "fst (getFolderId nm w) =
           Resolved (case find (\<lambda>e. entry_name e = nm)
                            (take (page_size w)
                               (filter (\<lambda>e. entry_mimeType e =
                                  ''application/vnd.google-apps.folder'') (store w))) of
                       None \<Rightarrow> '''' | Some e \<Rightarrow> entry_id e)
       \<and> (length (filter (\<lambda>e. entry_mimeType e = ''application/vnd.google-apps.folder'')
                     (store w)) \<le> page_size w \<longrightarrow>
           fst (getFolderId nm w) =
             Resolved (case find (\<lambda>e. entry_mimeType e = ''application/vnd.google-apps.folder''
                                    \<and> entry_name e = nm) (store w) of
                         None \<Rightarrow> '''' | Some e \<Rightarrow> entry_id e))
       \<and> (find (\<lambda>e. entry_mimeType e = ''application/vnd.google-apps.folder''
                     \<and> entry_name e = nm) (store w) = None \<longrightarrow>
           drive_fault w (Suc (length (trace w))) = None \<longrightarrow>
           createFolder nm w =
             (Resolved (mint_id w (store w)),
              w\<lparr>store := store w @
                   [\<lparr>entry_id = mint_id w (store w), entry_name = nm,
                     entry_mimeType = ''application/vnd.google-apps.folder'',
                     entry_parents = [DRIVE_ID w]\<rparr>],
                trace := trace w @
                   [DriveList ''application/vnd.google-apps.folder'',
                    DriveCreate \<lparr>folder_name = nm,
                      folder_mimeType = ''application/vnd.google-apps.folder'',
                      folder_parents = [DRIVE_ID w]\<rparr>]\<rparr>))"
proof (intro conjI impI)
  let ?folder = "\<lambda>e. entry_mimeType e = ''application/vnd.google-apps.folder''"
  have listing: "folder_listing w =
      map (\<lambda>e. \<lparr>file_id = entry_id e, file_name = entry_name e\<rparr>)
        (take (page_size w) (filter ?folder (store w)))"
    by (simp add: folder_listing_def folder_mime_def take_map)
  from assms show paged: "fst (getFolderId nm w) =
      Resolved (case find (\<lambda>e. entry_name e = nm)
                       (take (page_size w) (filter ?folder (store w))) of
                  None \<Rightarrow> '''' | Some e \<Rightarrow> entry_id e)"
    by (simp add: getFolderId_run listing scan_files_find)
  {
    assume "length (filter ?folder (store w)) \<le> page_size w"
    with paged show "fst (getFolderId nm w) =
        Resolved (case find (\<lambda>e. ?folder e \<and> entry_name e = nm) (store w) of
                    None \<Rightarrow> '''' | Some e \<Rightarrow> entry_id e)"
      by (simp add: find_filter)
  }
  {
    assume none: "find (\<lambda>e. ?folder e \<and> entry_name e = nm) (store w) = None"
      and up: "drive_fault w (Suc (length (trace w))) = None"
    from none have "\<forall>e \<in> set (take (page_size w) (filter ?folder (store w))).
        entry_name e \<noteq> nm"
      by (auto simp: find_None_iff dest!: in_set_takeD)
    then have "scan_files nm (folder_listing w) = ''''"
      unfolding listing by (intro scan_files_absent) auto
    with assms up show "createFolder nm w =
        (Resolved (mint_id w (store w)),
         w\<lparr>store := store w @
              [\<lparr>entry_id = mint_id w (store w), entry_name = nm,
                entry_mimeType = ''application/vnd.google-apps.folder'',
                entry_parents = [DRIVE_ID w]\<rparr>],
           trace := trace w @
              [DriveList ''application/vnd.google-apps.folder'',
               DriveCreate \<lparr>folder_name = nm,
                 folder_mimeType = ''application/vnd.google-apps.folder'',
                 folder_parents = [DRIVE_ID w]\<rparr>]\<rparr>)"
      by (simp add: createFolder_run new_folder_def folder_mime_def)
  }
qed

text \<open>On the stocked drive the name \<open>12345\<close> resolves to the folder \<open>a3\<close>, past the
  folder of another name and the text file of the same name; the name \<open>bug-9\<close> does
  not match the folder \<open>Bug-9\<close>, and a folder \<open>bug-9\<close> is created under the root.\<close>

theorem folder_lookup_witness:
  "fst (getFolderId ''12345'' stocked_world) = Resolved ''a3''
   \<and> fst (getFolderId ''bug-9'' stocked_world) = Resolved ''''
   \<and> createFolder ''bug-9'' stocked_world =
       (Resolved ''folder4'',
        stocked_world\<lparr>store := store stocked_world @
             [\<lparr>entry_id = ''folder4'', entry_name = ''bug-9'',
               entry_mimeType = ''application/vnd.google-apps.folder'',
               entry_parents = [''drive0'']\<rparr>],
           trace :=
             [DriveList ''application/vnd.google-apps.folder'',
              DriveCreate \<lparr>folder_name = ''bug-9'',
                folder_mimeType = ''application/vnd.google-apps.folder'',
                folder_parents = [''drive0'']\<rparr>]\<rparr>)"
proof -
  have up: "drive_fault stocked_world (length (trace stocked_world)) = None"
    "drive_fault stocked_world (Suc (length (trace stocked_world))) = None"
    by (simp_all add: stocked_world_def happy_world_def)
  have fit: "length (filter (\<lambda>e. entry_mimeType e = ''application/vnd.google-apps.folder'')
      (store stocked_world)) \<le> page_size stocked_world"
    by (simp add: stocked_world_def happy_world_def folder_mime_def)
  have absent: "find (\<lambda>e. entry_mimeType e = ''application/vnd.google-apps.folder''
      \<and> entry_name e = ''bug-9'') (store stocked_world) = None"
    by (simp add: stocked_world_def happy_world_def folder_mime_def)
  from folder_lookup_and_create [OF up(1), of "''12345''"]
    folder_lookup_and_create [OF up(1), of "''bug-9''"] up(2) fit absent
  show ?thesis
    by (simp add: stocked_world_def happy_world_def folder_mime_def num_to_string_examples)
qed

section \<open>Session initiation and the byte stream\<close>

text \<open>
  C5. With a token in hand, session initiation makes one request. On a status in 200..299
  it resolves with the \<open>location\<close> header of the response; on any other status it
  rejects with an error whose message holds the status code, the status message and the
  response body. The request is made once: the run adds the token call and one session
  request to the trace, whatever the answer.
\<close>

theorem session_initiation_result:
  assumes "token_answer w = Inr t"
    and "https_answer w (SessionPost (session_path w) t md) = Inr res"
  shows "fst (createResumableUpload md w) =
           (if 200 \<le> statusCode res \<and> statusCode res < 300 then Resolved (location res)
            else Rejected (Error (''Failed to create resumable upload session: ''
                   @ num_to_string (statusCode res) @ '' '' @ statusMessage res
                   @ '' '' @ body res)))
       \<and> new_effects w (snd (createResumableUpload md w)) =
           [GetAccessToken, SessionPost (session_path w) t md]"
  using assms by (simp add: createResumableUpload_run new_effects_def is_2xx_def)

theorem session_initiation_witness:
  "fst (createResumableUpload \<lparr>name = ''report.log'', parents = [''folder0'']\<rparr> happy_world) =
     Resolved (Some ''https://www.googleapis.com/upload/session1'')
   \<and> fst (createResumableUpload \<lparr>name = ''report.log'', parents = [''folder0'']\<rparr>
            session_refused_world) =
     Rejected (Error ''Failed to create resumable upload session: 403 Forbidden quota'')
   \<and> new_effects session_refused_world
        (snd (createResumableUpload \<lparr>name = ''report.log'', parents = [''folder0'']\<rparr>
               session_refused_world)) =
     [GetAccessToken,
      SessionPost
        ''/upload/drive/v3/files?uploadType=resumable&supportsTeamDrives=true&driveId=drive0''
        ''token0'' \<lparr>name = ''report.log'', parents = [''folder0'']\<rparr>]"
proof -
  let ?md = "\<lparr>name = ''report.log'', parents = [''folder0'']\<rparr>"
  have tok: "token_answer happy_world = Inr ''token0''"
    "token_answer session_refused_world = Inr ''token0''"
    by (simp_all add: session_refused_world_def happy_world_def)
  have ok: "https_answer happy_world (SessionPost (session_path happy_world) ''token0'' ?md) =
      Inr \<lparr>statusCode = 200, statusMessage = ''OK'',
           location = Some ''https://www.googleapis.com/upload/session1'', body = []\<rparr>"
    by (simp add: world_defs)
  have refused: "https_answer session_refused_world
        (SessionPost (session_path session_refused_world) ''token0'' ?md) =
      Inr \<lparr>statusCode = 403, statusMessage = ''Forbidden'', location = None,
           body = ''quota''\<rparr>"
    by (simp add: session_refused_world_def)
  from session_initiation_result [OF tok(1) ok] session_initiation_result [OF tok(2) refused]
  show ?thesis
    by (simp add: session_refused_world_def happy_world_def session_path_def
        num_to_string_examples)
qed

text \<open>
  C6. In every request whose session-initiation call is answered with a status outside
  200..299, no byte-streaming call is made and the reply is status 500 with the text
  "Error uploading file".
\<close>

theorem session_failure_no_streaming:
  assumes "SessionPost path token md \<in> set (new_effects w (snd (post_upload req w)))"
    and "https_answer w (SessionPost path token md) = Inr res"
    and "\<not> is_2xx res"
  shows "filter is_upload_put (new_effects w (snd (post_upload req w))) = []
       \<and> fst (post_upload req w) = Reply 500 ''Error uploading file''"
  using assms
  by (cases rule: post_upload_cases [of req w])
     (auto simp: new_effects_def req_defs)

theorem session_failure_witness:
  "SessionPost
      ''/upload/drive/v3/files?uploadType=resumable&supportsTeamDrives=true&driveId=drive0''
      ''token0'' \<lparr>name = ''report.log'', parents = [''folder0'']\<rparr>
     \<in> set (new_effects session_refused_world
               (snd (post_upload example_request session_refused_world)))
   \<and> https_answer session_refused_world
       (SessionPost
          ''/upload/drive/v3/files?uploadType=resumable&supportsTeamDrives=true&driveId=drive0''
          ''token0'' \<lparr>name = ''report.log'', parents = [''folder0'']\<rparr>) =
       Inr \<lparr>statusCode = 403, statusMessage = ''Forbidden'', location = None, body = ''quota''\<rparr>
   \<and> \<not> is_2xx \<lparr>statusCode = 403, statusMessage = ''Forbidden'', location = None,
                 body = ''quota''\<rparr>
   \<and> filter is_upload_put
        (new_effects session_refused_world
           (snd (post_upload example_request session_refused_world))) = []
   \<and> fst (post_upload example_request session_refused_world) = Reply 500 ''Error uploading file''"
proof -
  have a: "SessionPost
      ''/upload/drive/v3/files?uploadType=resumable&supportsTeamDrives=true&driveId=drive0''
      ''token0'' \<lparr>name = ''report.log'', parents = [''folder0'']\<rparr>
     \<in> set (new_effects session_refused_world
               (snd (post_upload example_request session_refused_world)))"
    by (simp add: session_refused_world_def world_defs req_defs eval_defs)
  have b: "https_answer session_refused_world
       (SessionPost
          ''/upload/drive/v3/files?uploadType=resumable&supportsTeamDrives=true&driveId=drive0''
          ''token0'' \<lparr>name = ''report.log'', parents = [''folder0'']\<rparr>) =
       Inr \<lparr>statusCode = 403, statusMessage = ''Forbidden'', location = None, body = ''quota''\<rparr>"
    by (simp add: session_refused_world_def)
  have c: "\<not> is_2xx \<lparr>statusCode = 403, statusMessage = ''Forbidden'', location = None,
                 body = ''quota''\<rparr>"
    by (simp add: is_2xx_def)
  from session_failure_no_streaming [OF a b c] a b c show ?thesis by blast
qed

text \<open>
  C7, as stated, fails for the response body. The storage endpoint answers the bytes with 503 and the body "quota exceeded": the error
  of \<open>uploadFile\<close> holds the status code and the status message only, and it is the
  same error when the body is "disk full".
\<close>

theorem upload_error_without_body_counterexample:
  "https_answer (upload_refused_world ''quota exceeded'')
       (UploadPut ''https://www.googleapis.com/upload/session1'' 5 ''text/plain'' ''hello'') =
     Inr \<lparr>statusCode = 503, statusMessage = ''Service Unavailable'', location = None,
          body = ''quota exceeded''\<rparr>
   \<and> fst (uploadFile (Some ''https://www.googleapis.com/upload/session1'') 5 ''text/plain''
          ''hello'' (upload_refused_world ''quota exceeded'')) =
     Rejected (Error ''Failed to upload file: 503 Service Unavailable'')
   \<and> fst (uploadFile (Some ''https://www.googleapis.com/upload/session1'') 5 ''text/plain''
          ''hello'' (upload_refused_world ''disk full'')) =
     fst (uploadFile (Some ''https://www.googleapis.com/upload/session1'') 5 ''text/plain''
          ''hello'' (upload_refused_world ''quota exceeded''))"
  by (simp add: upload_refused_world_def happy_world_def uploadFile_run is_2xx_def tmpl_def
      num_to_string_examples)

text \<open>
  C7 (amended). When the session URL is well formed and the terminal response has a status
  outside 200..299, the streamer rejects with an error whose message is
  "Failed to upload file: ", the status code and the status message; the response body is
  not part of it. On a status in 200..299 with a body that parses as JSON, it resolves
  with the parsed value. Either way it makes one request to the session URL.
\<close>

theorem upload_stream_result:
  assumes "url_valid w (tmpl uploadUrl)"
    and "https_answer w (UploadPut (tmpl uploadUrl) n mime bytes) = Inr res"
  shows "(\<not> (200 \<le> statusCode res \<and> statusCode res < 300) \<longrightarrow>
            fst (uploadFile uploadUrl n mime bytes w) =
              Rejected (Error (''Failed to upload file: ''
                @ num_to_string (statusCode res) @ '' '' @ statusMessage res)))
       \<and> (200 \<le> statusCode res \<and> statusCode res < 300 \<longrightarrow>
            json_parse w (body res) = Some descriptor \<longrightarrow>
            fst (uploadFile uploadUrl n mime bytes w) = Resolved descriptor)
       \<and> new_effects w (snd (uploadFile uploadUrl n mime bytes w)) =
            [UploadPut (tmpl uploadUrl) n mime bytes]"
  using assms by (simp add: uploadFile_run new_effects_def is_2xx_def)

theorem upload_stream_witness:
  "fst (uploadFile (Some ''https://www.googleapis.com/upload/session1'') 5 ''text/plain''
          ''hello'' (upload_refused_world ''quota exceeded'')) =
     Rejected (Error ''Failed to upload file: 503 Service Unavailable'')
   \<and> fst (uploadFile (Some ''https://www.googleapis.com/upload/session1'') 5 ''text/plain''
          ''hello'' happy_world) =
     Resolved (JObject [(''id'', JString ''file1'')])"
proof -
  let ?url = "Some ''https://www.googleapis.com/upload/session1''"
  let ?put = "UploadPut (tmpl ?url) 5 ''text/plain'' ''hello''"
  have valid: "url_valid (upload_refused_world ''quota exceeded'') (tmpl ?url)"
    "url_valid happy_world (tmpl ?url)"
    by (simp_all add: upload_refused_world_def happy_world_def tmpl_def)
  have refused: "https_answer (upload_refused_world ''quota exceeded'') ?put =
      Inr \<lparr>statusCode = 503, statusMessage = ''Service Unavailable'', location = None,
           body = ''quota exceeded''\<rparr>"
    by (simp add: upload_refused_world_def)
  have stored: "https_answer happy_world ?put =
      Inr \<lparr>statusCode = 200, statusMessage = ''OK'', location = None,
           body = descriptor_text\<rparr>"
    by (simp add: world_defs)
  have parsed: "json_parse happy_world descriptor_text =
      Some (JObject [(''id'', JString ''file1'')])"
    by (simp add: happy_world_def)
  from upload_stream_result [OF valid(1) refused]
    upload_stream_result [OF valid(2) stored, of "JObject [(''id'', JString ''file1'')]"] parsed
  show ?thesis by (simp add: num_to_string_examples)
qed

text \<open>A status in 200..299 with a body that is not JSON: \<open>JSON.parse\<close> throws inside
  the \<open>end\<close> callback, the promise never settles and the handler sends no reply.\<close>

lemma upload_unparsable_body:
  assumes "url_valid w (tmpl uploadUrl)"
    and "https_answer w (UploadPut (tmpl uploadUrl) n mime bytes) = Inr res"
    and "is_2xx res" and "json_parse w (body res) = None"
  shows "fst (uploadFile uploadUrl n mime bytes w) = Uncaught (SyntaxError ''JSON.parse'')"
  using assms by (simp add: uploadFile_run)

section \<open>The comment on the ticket\<close>

text \<open>
  C8. \<open>createBugzillaComment\<close> always resolves, with the truth value of "the tracker
  answered the write with status 201": any other status and any failure of the request
  give false, never a rejection. In a request whose comment write was not answered with
  201, the reply is still 200, with the text "Failed to comment to bugzilla" after the
  success line.
\<close>

theorem comment_outcome:
  "fst (createBugzillaComment bugId w) =
     Resolved (fetch_answer w (comment_request bugId w) = Inr 201)
   \<and> (TrackerPost url headers data \<in> set (new_effects w (snd (post_upload req w))) \<longrightarrow>
        fetch_answer w (TrackerPost url headers data) \<noteq> Inr 201 \<longrightarrow>
        fst (post_upload req w) =
          Reply 200 ''File uploaded successfully.\<newline><br>Failed to comment to bugzilla'')"
proof -
  have "TrackerPost url headers data \<in> set (new_effects w (snd (post_upload req w))) \<Longrightarrow>
        fetch_answer w (TrackerPost url headers data) \<noteq> Inr 201 \<Longrightarrow>
        fst (post_upload req w) =
          Reply 200 ''File uploaded successfully.\<newline><br>Failed to comment to bugzilla''"
    by (cases rule: post_upload_cases [of req w])
       (auto simp: new_effects_def req_defs uploaded_text_def)
  then show ?thesis by (simp add: createBugzillaComment_run)
qed

theorem comment_outcome_witness:
  "fst (createBugzillaComment (Some ''12345'') happy_world) = Resolved True
   \<and> fst (createBugzillaComment (Some ''12345'') comment_refused_world) = Resolved False
   \<and> fst (createBugzillaComment (Some ''12345'') tracker_down_world) = Resolved False
   \<and> fst (post_upload example_request comment_refused_world) =
       Reply 200 ''File uploaded successfully.\<newline><br>Failed to comment to bugzilla''"
proof -
  let ?post = "TrackerPost ''https://bugzilla.mozilla.org/rest/bug/12345/comment''
      [(''X-BUGZILLA-API-KEY'', ''key0'')]
      [(''comment'', ''A log has been successfully uploaded to the team's storage'')]"
  have made: "?post \<in> set (new_effects comment_refused_world
      (snd (post_upload example_request comment_refused_world)))"
    by (simp add: comment_refused_world_def world_defs req_defs eval_defs descriptor_text_def
        comment_text_def)
  have refused: "fetch_answer comment_refused_world ?post \<noteq> Inr 201"
    by (simp add: comment_refused_world_def)
  from comment_outcome [of "Some ''12345''" happy_world]
    comment_outcome [of "Some ''12345''" comment_refused_world]
    comment_outcome [of "Some ''12345''" tracker_down_world]
    comment_outcome [where w = comment_refused_world and req = example_request
      and url = "''https://bugzilla.mozilla.org/rest/bug/12345/comment''"
      and headers = "[(''X-BUGZILLA-API-KEY'', ''key0'')]"
      and data = "[(''comment'', ''A log has been successfully uploaded to the team's storage'')]"]
    made refused
  show ?thesis
    by (simp add: comment_refused_world_def tracker_down_world_def world_defs
        comment_request_def)
qed

text \<open>
  C9. In a request whose comment write was answered with 201 (the bytes were stored
  before, or the write would not have been made), the comment posted is the object with
  the single field \<open>comment\<close> and the text "A log has been successfully uploaded to the
  team's storage", sent to the comment endpoint of the request's ticket, and the reply
  is 200 with the body "File uploaded successfully.", a newline, and
  "<br>Added comment to bugzilla".
\<close>

theorem success_texts:
  assumes "TrackerPost url headers data \<in> set (new_effects w (snd (post_upload req w)))"
    and "fetch_answer w (TrackerPost url headers data) = Inr 201"
  shows "data = [(''comment'', ''A log has been successfully uploaded to the team's storage'')]
       \<and> url = ''https://bugzilla.mozilla.org/rest/bug/'' @ tmpl (req_bugid req) @ ''/comment''
       \<and> fst (post_upload req w) =
           Reply 200 ''File uploaded successfully.\<newline><br>Added comment to bugzilla''"
  using assms
  by (cases rule: post_upload_cases [of req w])
     (auto simp: new_effects_def req_defs uploaded_text_def comment_text_def)

theorem success_texts_witness:
  "new_effects happy_world (snd (post_upload example_request happy_world)) =
     [TrackerGet ''https://bugzilla.mozilla.org/rest/bug/12345''
        [(''X-BUGZILLA-API-KEY'', ''key0'')],
      DriveList ''application/vnd.google-apps.folder'',
      DriveCreate \<lparr>folder_name = ''12345'',
        folder_mimeType = ''application/vnd.google-apps.folder'',
        folder_parents = [''drive0'']\<rparr>,
      GetAccessToken,
      SessionPost
        ''/upload/drive/v3/files?uploadType=resumable&supportsTeamDrives=true&driveId=drive0''
        ''token0'' \<lparr>name = ''report.log'', parents = [''folder0'']\<rparr>,
      UploadPut ''https://www.googleapis.com/upload/session1'' 1024 ''text/plain''
        (replicate 1024 (CHR ''x'')),
      TrackerPost ''https://bugzilla.mozilla.org/rest/bug/12345/comment''
        [(''X-BUGZILLA-API-KEY'', ''key0'')]
        [(''comment'', ''A log has been successfully uploaded to the team's storage'')]]
   \<and> fst (post_upload example_request happy_world) =
       Reply 200 ''File uploaded successfully.\<newline><br>Added comment to bugzilla''"
proof -
  let ?post = "TrackerPost ''https://bugzilla.mozilla.org/rest/bug/12345/comment''
      [(''X-BUGZILLA-API-KEY'', ''key0'')]
      [(''comment'', ''A log has been successfully uploaded to the team's storage'')]"
  have run: "new_effects happy_world (snd (post_upload example_request happy_world)) =
     [TrackerGet ''https://bugzilla.mozilla.org/rest/bug/12345''
        [(''X-BUGZILLA-API-KEY'', ''key0'')],
      DriveList ''application/vnd.google-apps.folder'',
      DriveCreate \<lparr>folder_name = ''12345'',
        folder_mimeType = ''application/vnd.google-apps.folder'',
        folder_parents = [''drive0'']\<rparr>,
      GetAccessToken,
      SessionPost
        ''/upload/drive/v3/files?uploadType=resumable&supportsTeamDrives=true&driveId=drive0''
        ''token0'' \<lparr>name = ''report.log'', parents = [''folder0'']\<rparr>,
      UploadPut ''https://www.googleapis.com/upload/session1'' 1024 ''text/plain''
        (replicate 1024 (CHR ''x'')),
      ?post]"
    by (simp add: world_defs req_defs eval_defs descriptor_text_def comment_text_def)
  then have made: "?post \<in> set (new_effects happy_world
      (snd (post_upload example_request happy_world)))"
    by simp
  have posted: "fetch_answer happy_world ?post = Inr 201"
    by (simp add: world_defs)
  from success_texts [OF made posted] run show ?thesis by simp
qed

section \<open>The file descriptor\<close>

lemma blind_checkBugIdExists: "blind p (checkBugIdExists bugId)"
  by (simp add: blind_def checkBugIdExists_run ticket_request_def)

lemma blind_createFolder: "blind p (createFolder nm)"
  by (simp add: blind_def createFolder_run folder_listing_def new_folder_def
      split: option.splits)

lemma blind_createResumableUpload: "blind p (createResumableUpload md)"
  by (simp add: blind_def createResumableUpload_run session_path_def split: sum.splits)

lemma blind_createBugzillaComment: "blind p (createBugzillaComment bugId)"
  by (simp add: blind_def createBugzillaComment_run comment_request_def)

lemma blind_send: "blind p (send st text)"
  by (simp add: blind_def send_def)

lemma blind_if: "blind p a \<Longrightarrow> blind p b \<Longrightarrow> blind p (if c then a else b)"
  by simp

lemma blind_await:
  assumes m: "blind p m" and k: "\<And>x. blind p (k x)"
  shows "blind p (await m k)"
  unfolding blind_def
proof (intro allI impI)
  fix w :: world assume agree: "\<forall>s. (p s = None) = (json_parse w s = None)"
  obtain r v where mw: "m w = (r, v)" by (cases "m w")
  from m agree have "m (w\<lparr>json_parse := p\<rparr>) = (fst (m w), (snd (m w))\<lparr>json_parse := p\<rparr>)
      \<and> json_parse (snd (m w)) = json_parse w"
    unfolding blind_def by blast
  with mw have m1: "m (w\<lparr>json_parse := p\<rparr>) = (r, v\<lparr>json_parse := p\<rparr>)"
    and m2: "json_parse v = json_parse w"
    by simp_all
  show "await m k (w\<lparr>json_parse := p\<rparr>) =
          (fst (await m k w), (snd (await m k w))\<lparr>json_parse := p\<rparr>)
        \<and> json_parse (snd (await m k w)) = json_parse w"
  proof (cases r)
    case (Resolved x)
    from agree m2 have "\<forall>s. (p s = None) = (json_parse v s = None)" by simp
    with k [of x] have "k x (v\<lparr>json_parse := p\<rparr>) =
        (fst (k x v), (snd (k x v))\<lparr>json_parse := p\<rparr>)
      \<and> json_parse (snd (k x v)) = json_parse v"
      unfolding blind_def by blast
    with Resolved mw m1 m2 show ?thesis by (simp add: await_def)
  next
    case (Rejected e)
    with mw m1 m2 show ?thesis by (simp add: await_def)
  next
    case (Uncaught e)
    with mw m1 m2 show ?thesis by (simp add: await_def)
  qed
qed

lemma blind_uploadFile:
  assumes k: "blind p k"
  shows "blind p (await (uploadFile uploadUrl n mime bytes) (\<lambda>_. k))"
  unfolding blind_def
proof (intro allI impI)
  fix w :: world assume agree: "\<forall>s. (p s = None) = (json_parse w s = None)"
  let ?w' = "w\<lparr>trace := trace w @ [UploadPut (tmpl uploadUrl) n mime bytes]\<rparr>"
  have comm: "w\<lparr>json_parse := p,
      trace := trace w @ [UploadPut (tmpl uploadUrl) n mime bytes]\<rparr> = ?w'\<lparr>json_parse := p\<rparr>"
    by simp
  from agree have "\<forall>s. (p s = None) = (json_parse ?w' s = None)" by simp
  with k have "k (?w'\<lparr>json_parse := p\<rparr>) = (fst (k ?w'), (snd (k ?w'))\<lparr>json_parse := p\<rparr>)
      \<and> json_parse (snd (k ?w')) = json_parse ?w'"
    unfolding blind_def by blast
  then have k1: "k (?w'\<lparr>json_parse := p\<rparr>) = (fst (k ?w'), (snd (k ?w'))\<lparr>json_parse := p\<rparr>)"
    and k2: "json_parse (snd (k ?w')) = json_parse w"
    by simp_all
  have parsed: "\<And>s. (\<exists>v. p s = Some v) = (\<exists>v. json_parse w s = Some v)"
    using agree by (metis option.exhaust option.distinct(1))
  show "await (uploadFile uploadUrl n mime bytes) (\<lambda>_. k) (w\<lparr>json_parse := p\<rparr>) =
          (fst (await (uploadFile uploadUrl n mime bytes) (\<lambda>_. k) w),
           (snd (await (uploadFile uploadUrl n mime bytes) (\<lambda>_. k) w))\<lparr>json_parse := p\<rparr>)
        \<and> json_parse (snd (await (uploadFile uploadUrl n mime bytes) (\<lambda>_. k) w)) = json_parse w"
  proof (cases "url_valid w (tmpl uploadUrl)")
    case False
    then show ?thesis by (simp add: await_def uploadFile_run)
  next
    case True
    show ?thesis
    proof (cases "https_answer w (UploadPut (tmpl uploadUrl) n mime bytes)")
      case (Inl e)
      with True show ?thesis by (simp add: await_def uploadFile_run)
    next
      case (Inr res)
      show ?thesis
      proof (cases "is_2xx res")
        case False
        with True Inr show ?thesis by (simp add: await_def uploadFile_run)
      next
        case ok: True
        show ?thesis
        proof (cases "json_parse w (body res)")
          case None
          with agree have "p (body res) = None" by simp
          with True Inr ok None show ?thesis by (simp add: await_def uploadFile_run)
        next
          case (Some v)
          with parsed [of "body res"] obtain v' where "p (body res) = Some v'" by auto
          with True Inr ok Some k1 k2 show ?thesis
            by (simp add: await_def uploadFile_run comm)
        qed
      qed
    qed
  qed
qed

lemma blind_handler:
  "blind p
     (await (checkBugIdExists (req_bugid req)) (\<lambda>maybeError.
        if error maybeError then
          send 200 (''Failed to upload file: '' @ tmpl (message maybeError))
        else
          await (createFolder (tmpl (req_bugid req))) (\<lambda>folder.
          await (createResumableUpload
                   \<lparr>name = originalname f, parents = [folder]\<rparr>) (\<lambda>uploadUrl.
          await (uploadFile uploadUrl (file_size f) (mimetype f) (buffer f)) (\<lambda>_.
          await (createBugzillaComment (req_bugid req)) (\<lambda>commented.
            send 200 (uploaded_text @
              (if commented then ''Added comment to bugzilla''
               else ''Failed to comment to bugzilla''))))))))"
  by (intro blind_await blind_checkBugIdExists blind_if blind_send blind_createFolder
      blind_createResumableUpload blind_uploadFile blind_createBugzillaComment)

text \<open>
  C10. The descriptor parsed from the upload response is discarded. Replacing the parser
  by any function that accepts the same texts, whatever values it returns, changes
  neither the reply nor the trace nor the drive; and in every request whose bytes were
  stored and whose response parsed, the reply is 200 with one of the two fixed texts,
  in which the descriptor does not occur.
\<close>

theorem descriptor_discarded:
  assumes "\<forall>s. (p s = None) = (json_parse w s = None)"
  shows "fst (post_upload req (w\<lparr>json_parse := p\<rparr>)) = fst (post_upload req w)
       \<and> trace (snd (post_upload req (w\<lparr>json_parse := p\<rparr>))) = trace (snd (post_upload req w))
       \<and> store (snd (post_upload req (w\<lparr>json_parse := p\<rparr>))) = store (snd (post_upload req w))
       \<and> (UploadPut url n mime bytes \<in> set (new_effects w (snd (post_upload req w))) \<longrightarrow>
            https_answer w (UploadPut url n mime bytes) = Inr res \<longrightarrow> is_2xx res \<longrightarrow>
            json_parse w (body res) = Some descriptor \<longrightarrow>
            fst (post_upload req w) =
              Reply 200 ''File uploaded successfully.\<newline><br>Added comment to bugzilla''
            \<or> fst (post_upload req w) =
              Reply 200 ''File uploaded successfully.\<newline><br>Failed to comment to bugzilla'')"
proof -
  have same: "fst (post_upload req (w\<lparr>json_parse := p\<rparr>)) = fst (post_upload req w)
       \<and> trace (snd (post_upload req (w\<lparr>json_parse := p\<rparr>))) = trace (snd (post_upload req w))
       \<and> store (snd (post_upload req (w\<lparr>json_parse := p\<rparr>))) = store (snd (post_upload req w))"
  proof (cases "req_file req")
    case None
    then show ?thesis by (simp add: post_upload_def)
  next
    case (Some f)
    from blind_handler [of p req f] assms Some show ?thesis
      unfolding blind_def post_upload_def
      by (auto simp: catch_error_def split: prod.splits outcome.splits)
  qed
  have fixed: "UploadPut url n mime bytes \<in> set (new_effects w (snd (post_upload req w))) \<Longrightarrow>
      https_answer w (UploadPut url n mime bytes) = Inr res \<Longrightarrow> is_2xx res \<Longrightarrow>
      json_parse w (body res) = Some descriptor \<Longrightarrow>
      fst (post_upload req w) =
        Reply 200 ''File uploaded successfully.\<newline><br>Added comment to bugzilla''
      \<or> fst (post_upload req w) =
        Reply 200 ''File uploaded successfully.\<newline><br>Failed to comment to bugzilla''"
    by (cases rule: post_upload_cases [of req w])
       (auto simp: new_effects_def req_defs uploaded_text_def)
  from same fixed show ?thesis by blast
qed

theorem descriptor_discarded_witness:
  "json_parse happy_world descriptor_text = Some (JObject [(''id'', JString ''file1'')])
   \<and> json_parse other_descriptor_world descriptor_text =
       Some (JObject [(''id'', JString ''file2''), (''kind'', JString ''drive#file'')])
   \<and> fst (post_upload example_request other_descriptor_world) =
       fst (post_upload example_request happy_world)
   \<and> trace (snd (post_upload example_request other_descriptor_world)) =
       trace (snd (post_upload example_request happy_world))
   \<and> fst (post_upload example_request happy_world) =
       Reply 200 ''File uploaded successfully.\<newline><br>Added comment to bugzilla''"
proof -
  let ?put = "UploadPut ''https://www.googleapis.com/upload/session1'' 1024 ''text/plain''
      (replicate 1024 (CHR ''x''))"
  have agree: "\<forall>s. (other_parser s = None) = (json_parse happy_world s = None)"
    by (simp add: other_parser_def happy_world_def)
  have made: "?put \<in> set (new_effects happy_world
      (snd (post_upload example_request happy_world)))"
    by (simp add: world_defs req_defs eval_defs descriptor_text_def)
  have stored: "https_answer happy_world ?put =
      Inr \<lparr>statusCode = 200, statusMessage = ''OK'', location = None,
           body = descriptor_text\<rparr>"
    by (simp add: world_defs)
  have ok: "is_2xx \<lparr>statusCode = 200, statusMessage = ''OK'', location = None,
      body = descriptor_text\<rparr>"
    by (simp add: is_2xx_def)
  have parsed: "json_parse happy_world descriptor_text =
      Some (JObject [(''id'', JString ''file1'')])"
    "json_parse other_descriptor_world descriptor_text =
      Some (JObject [(''id'', JString ''file2''), (''kind'', JString ''drive#file'')])"
    by (simp_all add: other_descriptor_world_def other_parser_def happy_world_def)
  have posted: "fst (post_upload example_request happy_world) \<noteq>
      Reply 200 ''File uploaded successfully.\<newline><br>Failed to comment to bugzilla''"
    by (simp add: world_defs req_defs eval_defs descriptor_text_def uploaded_text_def)
  from descriptor_discarded [OF agree, where req = example_request and url =
      "''https://www.googleapis.com/upload/session1''" and n = 1024 and mime = "''text/plain''"
      and bytes = "replicate 1024 (CHR ''x'')"
      and res = "\<lparr>statusCode = 200, statusMessage = ''OK'', location = None,
           body = descriptor_text\<rparr>"
      and descriptor = "JObject [(''id'', JString ''file1'')]"]
    made stored ok parsed posted
  show ?thesis by (simp add: other_descriptor_world_def)
qed

end
